theory Spec2Isabelle
  imports Main "HOL-Library.Sublist"
begin

section \<open>The post-registration hook \<open>handle_new_auth_user\<close> (debug_otp_complete.sql)\<close>

text \<open>
  The trigger function reads the new row of the authentication table, takes three keys out of
  its \<open>raw_user_meta_data\<close> (a \<open>jsonb\<close> column) with the operator \<open>->>\<close>, defaults each of them
  with \<open>COALESCE\<close>, and inserts a row into \<open>public.users\<close> with \<open>ON CONFLICT (id) DO NOTHING\<close>.

  A \<open>jsonb\<close> object is a finite map from keys to values. The operator \<open>->>\<close> yields SQL NULL
  for a missing key and for the JSON value \<open>null\<close>, and the text of the value otherwise; SQL NULL
  is \<open>None\<close>. The column itself may be NULL, and then every \<open>->>\<close> is NULL too.
\<close>

datatype jvalue = JNull | JText string

type_synonym jsonb = "(string \<rightharpoonup> jvalue) option"

definition jsonb_get_text :: "jsonb \<Rightarrow> string \<Rightarrow> string option" where
  "jsonb_get_text j k =
     (case j of
        None \<Rightarrow> None
      | Some obj \<Rightarrow>
          (case obj k of
             None \<Rightarrow> None
           | Some JNull \<Rightarrow> None
           | Some (JText s) \<Rightarrow> Some s))"

definition COALESCE :: "'a option \<Rightarrow> 'a \<Rightarrow> 'a" where
  "COALESCE v d = (case v of None \<Rightarrow> d | Some x \<Rightarrow> x)"

text \<open>The row \<open>NEW\<close> of the authentication table, as far as the trigger reads it.\<close>

record auth_user =
  new_id :: string
  new_email :: "string option"
  raw_user_meta_data :: jsonb
  new_created_at :: string

text \<open>A row of \<open>public.users\<close>, with the six columns the trigger writes.\<close>

record users_row =
  users_id :: string
  users_email :: "string option"
  first_name :: string
  last_name :: string
  role :: string
  created_at :: string

text \<open>
  The table \<open>public.users\<close> is keyed by \<open>id\<close> (the conflict target of the insert), so it is a
  map from identifiers to rows.
\<close>

type_synonym users_table = "string \<rightharpoonup> users_row"

definition new_users_row :: "auth_user \<Rightarrow> users_row" where
  "new_users_row NEW =
     (let meta = raw_user_meta_data NEW in
      \<lparr> users_id = new_id NEW,
        users_email = new_email NEW,
        first_name = COALESCE (jsonb_get_text meta ''first_name'') '''',
        last_name = COALESCE (jsonb_get_text meta ''last_name'') '''',
        role = COALESCE (jsonb_get_text meta ''role'') ''student'',
        created_at = new_created_at NEW \<rparr>)"

text \<open>
  \<open>INSERT ... ON CONFLICT (id) DO NOTHING; RETURN NEW\<close>: the row is added when no row has this
  \<open>id\<close>, the table is left as it is otherwise, and \<open>NEW\<close> is returned in both cases.
\<close>

definition handle_new_auth_user :: "auth_user \<Rightarrow> users_table \<Rightarrow> users_table \<times> auth_user" where
  "handle_new_auth_user NEW users =
     (case users (new_id NEW) of
        Some existing \<Rightarrow> (users, NEW)
      | None \<Rightarrow> (users(new_id NEW \<mapsto> new_users_row NEW), NEW))"

text \<open>The closed set of roles of the type \<open>User\<close> (src/types/index.ts).\<close>

definition User_roles :: "string set" where
  "User_roles = {''admin'', ''helper'', ''student'', ''driver''}"

section \<open>The registration form (src/pages/Register.tsx)\<close>

text \<open>
  A browser \<open>File\<close>: its MIME type, its size in bytes, and, for an image, the width and height
  that the \<open>Image\<close> element reports once it has loaded the file (\<open>None\<close> when the file never
  loads, so that \<open>onload\<close> never runs).
\<close>

record File =
  file_type :: string
  file_size :: nat
  image_dims :: "(nat \<times> nat) option"

text \<open>
  A property of the object \<open>formData\<close> holds a string, a \<open>File\<close> or \<open>null\<close>; a property that
  was never set is \<open>undefined\<close>. The object is a function from property names to values, and
  \<open>{ ...prev, [name]: v }\<close> is a function update.
\<close>

datatype field = Undefined | Null | Str string | FileV File

type_synonym formData = "string \<Rightarrow> field"

definition initial_formData :: formData where
  "initial_formData =
     (\<lambda>_. Undefined)
       (''firstname'' := Str [],
        ''lastname'' := Str [],
        ''email'' := Str [],
        ''password'' := Str [],
        ''confirmPassword'' := Str [],
        ''role'' := Str [],
        ''phone'' := Str [],
        ''disabilityType'' := Str [],
        ''disabilityVideo'' := Null,
        ''assistant_type'' := Str [],
        ''assistant_specialization'' := Str [],
        ''time_period'' := Str [],
        ''bankName'' := Str [],
        ''bankAccountNumber'' := Str [],
        ''profilePicture'' := Null,
        ''applicationLetter'' := Null)"

text \<open>The payload of \<open>UserRegistrationService.registerUser\<close>, built by \<open>handleRegister\<close>.\<close>

record RegistrationData =
  rd_email :: field
  rd_password :: field
  rd_first_name :: field
  rd_last_name :: field
  rd_role :: field
  rd_phone :: field
  rd_disability_type :: field
  rd_bank_name :: field
  rd_bank_account_number :: field
  rd_assistant_type :: field
  rd_assistant_specialization :: field
  rd_time_period :: field
  rd_profile_picture :: field
  rd_application_letter :: field
  rd_disability_video :: field

text \<open>
  The page: the form state, the alerts shown so far, whether the last file handler reset its
  input element (\<open>e.target.value = ""\<close>), the calls made to the registration service, and the
  path the page navigated to.
\<close>

record page =
  form :: formData
  alerts :: "string list"
  input_reset :: bool
  registerUser_calls :: "RegistrationData list"
  navigated :: "string option"

definition initial_page :: page where
  "initial_page =
     \<lparr> form = initial_formData, alerts = [], input_reset = False,
       registerUser_calls = [], navigated = None \<rparr>"

text \<open>
  \<open>value.replace(/[^0-9]/g, '')\<close> keeps the characters \<open>0\<close> to \<open>9\<close>, in order. The regular
  expression works on the code units of the string, the model on bytes; in both, the ten ASCII
  digits are the only characters that stay.
\<close>

definition is_digit :: "char \<Rightarrow> bool" where
  "is_digit c = (c \<in> set ''0123456789'')"

definition strip_non_digits :: "string \<Rightarrow> string" where
  "strip_non_digits v = filter is_digit v"

definition handleChange :: "string \<Rightarrow> string \<Rightarrow> page \<Rightarrow> page" where
  "handleChange name v p =
     (if name = ''bankAccountNumber''
      then p\<lparr>form := (form p)(name := Str (strip_non_digits v))\<rparr>
      else p\<lparr>form := (form p)(name := Str v)\<rparr>)"

definition handleSelectChange :: "string \<Rightarrow> string \<Rightarrow> page \<Rightarrow> page" where
  "handleSelectChange name v p = p\<lparr>form := (form p)(name := Str v)\<rparr>"

definition maxVideoSize :: nat where
  "maxVideoSize = 100 * 1024 * 1024"

definition maxSize :: nat where
  "maxSize = 2 * 1024 * 1024"

text \<open>
  \<open>handleFileChange\<close>: the argument is \<open>e.target.files?.[0]\<close>. The branch is chosen by the MIME
  type of the file, not by the input element it came from. The image branch decides in
  \<open>img.onload\<close>; an image that never loads changes nothing.
\<close>

definition handleFileChange :: "File option \<Rightarrow> page \<Rightarrow> page" where
  "handleFileChange fo p =
     (case fo of
        None \<Rightarrow> p
      | Some file \<Rightarrow>
          (let isVideo = prefix ''video/'' (file_type file);
               isImage = prefix ''image/'' (file_type file);
               isPDF = (file_type file = ''application/pdf'')
           in
           if isVideo then
             (if file_size file > maxVideoSize
              then p\<lparr>alerts := alerts p @ [''Video must be less than 100MB''],
                     input_reset := True\<rparr>
              else p\<lparr>form := (form p)(''disabilityVideo'' := FileV file)\<rparr>)
           else if isImage then
             (case image_dims file of
                None \<Rightarrow> p
              | Some (width, height) \<Rightarrow>
                  if file_size file > maxSize \<or> width > 1024 \<or> height > 1024
                  then p\<lparr>alerts := alerts p @
                              [''Image must be less than 2MB and dimensions within 1024x1024.''],
                         input_reset := True\<rparr>
                  else p\<lparr>form := (form p)(''profilePicture'' := FileV file)\<rparr>)
           else if isPDF then
             (if file_size file > maxSize
              then p\<lparr>alerts := alerts p @ [''PDF must be less than 2MB''],
                     input_reset := True\<rparr>
              else p\<lparr>form := (form p)(''applicationLetter'' := FileV file)\<rparr>)
           else p))"

text \<open>JavaScript truthiness of a property: the empty string, \<open>null\<close> and \<open>undefined\<close> are falsy.\<close>

fun truthy :: "field \<Rightarrow> bool" where
  "truthy Undefined = False"
| "truthy Null = False"
| "truthy (Str s) = (s \<noteq> [])"
| "truthy (FileV f) = True"

text \<open>
  What the registration service answers: success, a failure with an optional message, or an
  exception.
\<close>

datatype register_result = RegSuccess | RegFailure "string option" | RegThrows

definition registrationData_of :: "formData \<Rightarrow> RegistrationData" where
  "registrationData_of fd =
     (let isStudent = (fd ''role'' = Str ''student'');
          isHelper = (fd ''role'' = Str ''helper'')
      in
      \<lparr> rd_email = fd ''email'',
        rd_password = fd ''password'',
        rd_first_name = fd ''firstname'',
        rd_last_name = fd ''lastname'',
        rd_role = fd ''role'',
        rd_phone = fd ''phone'',
        rd_disability_type = (if isStudent then fd ''disabilityType'' else Undefined),
        rd_bank_name = (if isHelper then fd ''bankName'' else Undefined),
        rd_bank_account_number = (if isHelper then fd ''bankAccountNumber'' else Undefined),
        rd_assistant_type = (if isHelper then fd ''assistant_type'' else Undefined),
        rd_assistant_specialization =
          (if isHelper then fd ''assistant_specialization'' else Undefined),
        rd_time_period = (if isHelper then fd ''time_period'' else Undefined),
        rd_profile_picture = fd ''profilePicture'',
        rd_application_letter = (if isHelper then fd ''applicationLetter'' else Undefined),
        rd_disability_video = (if isStudent then fd ''disabilityVideo'' else Undefined) \<rparr>)"

text \<open>
  \<open>handleRegister\<close>: five validations, each of which alerts and returns, then the one call to
  the registration service. \<open>formData.password.length < 6\<close> is read on a string; on a \<open>File\<close> the
  property \<open>length\<close> is \<open>undefined\<close> and the comparison is false.
\<close>

definition handleRegister :: "register_result \<Rightarrow> page \<Rightarrow> page" where
  "handleRegister res p =
     (let fd = form p in
      if \<not> truthy (fd ''firstname'') \<or> \<not> truthy (fd ''lastname'') \<or> \<not> truthy (fd ''email'') \<or>
         \<not> truthy (fd ''password'') \<or> \<not> truthy (fd ''confirmPassword'') \<or>
         \<not> truthy (fd ''role'') \<or> \<not> truthy (fd ''phone'') \<or> \<not> truthy (fd ''profilePicture'')
      then p\<lparr>alerts := alerts p @ [''Please fill in all required fields'']\<rparr>
      else if fd ''password'' \<noteq> fd ''confirmPassword''
      then p\<lparr>alerts := alerts p @ [''Passwords do not match'']\<rparr>
      else if (case fd ''password'' of Str s \<Rightarrow> length s < 6 | _ \<Rightarrow> False)
      then p\<lparr>alerts := alerts p @ [''Password must be at least 6 characters long'']\<rparr>
      else if fd ''role'' = Str ''helper'' \<and>
              (\<not> truthy (fd ''assistant_type'') \<or> \<not> truthy (fd ''assistant_specialization'') \<or>
               \<not> truthy (fd ''time_period'') \<or> \<not> truthy (fd ''bankName'') \<or>
               \<not> truthy (fd ''bankAccountNumber'') \<or> \<not> truthy (fd ''applicationLetter''))
      then p\<lparr>alerts := alerts p @
                  [''Please fill in all helper-specific fields and upload an application letter'']\<rparr>
      else if fd ''role'' = Str ''student'' \<and> \<not> truthy (fd ''disabilityType'')
      then p\<lparr>alerts := alerts p @ [''Please select a disability type'']\<rparr>
      else
        (let p' = p\<lparr>registerUser_calls := registerUser_calls p @ [registrationData_of fd]\<rparr> in
         case res of
           RegSuccess \<Rightarrow>
             p'\<lparr>alerts := alerts p' @
                    [''Registration successful! Please check your email to confirm your account.''],
                navigated := Some ''/login''\<rparr>
         | RegFailure msg \<Rightarrow>
             p'\<lparr>alerts := alerts p' @
                    [case msg of Some m \<Rightarrow> (if m = [] then ''Registration failed'' else m)
                     | None \<Rightarrow> ''Registration failed'']\<rparr>
         | RegThrows \<Rightarrow>
             p'\<lparr>alerts := alerts p' @ [''An error occurred during registration'']\<rparr>))"

text \<open>
  The events of the page. A change event comes from one of the text inputs of the form, a select
  event from one of its \<open>Select\<close> elements; the names are those of the JSX.
\<close>

definition text_input_names :: "string list" where
  "text_input_names =
     [''firstname'', ''lastname'', ''email'', ''password'', ''confirmPassword'', ''phone'',
      ''bankAccountNumber'']"

definition select_names :: "string list" where
  "select_names =
     [''role'', ''disabilityType'', ''assistant_type'', ''assistant_specialization'',
      ''time_period'', ''bankName'']"

datatype form_event =
    Change string string
  | SelectChange string string
  | FileChange "File option"
  | Submit register_result

fun form_step :: "page \<Rightarrow> form_event \<Rightarrow> page" where
  "form_step p (Change name v) = (if name \<in> set text_input_names then handleChange name v p else p)"
| "form_step p (SelectChange name v) =
     (if name \<in> set select_names then handleSelectChange name v p else p)"
| "form_step p (FileChange fo) = handleFileChange fo p"
| "form_step p (Submit res) = handleRegister res p"

definition run_form :: "form_event list \<Rightarrow> page" where
  "run_form evs = foldl form_step initial_page evs"

text \<open>The constraint of the object-storage boundary that a file of each kind has to meet.\<close>

definition meets_constraint :: "File \<Rightarrow> bool" where
  "meets_constraint f =
     (if prefix ''video/'' (file_type f) then file_size f \<le> 100 * 1024 * 1024
      else if prefix ''image/'' (file_type f) then
        (case image_dims f of
           None \<Rightarrow> False
         | Some (w, h) \<Rightarrow> file_size f \<le> 2 * 1024 * 1024 \<and> w \<le> 1024 \<and> h \<le> 1024)
      else if file_type f = ''application/pdf'' then file_size f \<le> 2 * 1024 * 1024
      else False)"

fun field_ok :: "field \<Rightarrow> bool" where
  "field_ok (FileV f) = meets_constraint f"
| "field_ok _ = True"

definition files_of :: "RegistrationData \<Rightarrow> field list" where
  "files_of rd = [rd_profile_picture rd, rd_application_letter rd, rd_disability_video rd]"

definition all_digits :: "field \<Rightarrow> bool" where
  "all_digits v = (case v of Str s \<Rightarrow> list_all is_digit s | _ \<Rightarrow> False)"

text \<open>
  The invariant of the page for the files: every file held by the form, and every file of a
  payload that was sent to the registration service, meets the constraint of its kind.
\<close>

definition files_ok :: "page \<Rightarrow> bool" where
  "files_ok p =
     ((\<forall>k. field_ok (form p k)) \<and>
      (\<forall>rd \<in> set (registerUser_calls p). \<forall>x \<in> set (files_of rd). field_ok x))"

section \<open>The driver's ride list (src/components/DriverRides.tsx)\<close>

subsection \<open>Data\<close>

datatype ride_status = pending | accepted | rejected | completed

text \<open>Coordinates are only passed on by the component; they are opaque pairs here.\<close>

type_synonym coords = "int \<times> int"

text \<open>
  A row of the table \<open>ride_requests\<close>. Rows come from the store, so the identifier is present.
  \<open>driver_location\<close> is the column written by the periodic location push.
\<close>

record RideRequest =
  ride_id :: string
  student_id :: string
  driver_id :: "string option"
  pickup_location :: string
  destination :: string
  status :: ride_status
  updated_at :: string
  driver_location :: "coords option"

type_synonym store = "RideRequest list"

text \<open>The signed-in user that \<open>useAuth\<close> supplies (\<open>None\<close> when nobody is signed in).\<close>

record User =
  user_id :: string
  user_email :: string
  user_first_name :: string
  user_last_name :: string
  user_role :: string
  user_phone :: "string option"

text \<open>\<open>user?.id\<close> as a condition: there is a user and the identifier is not the empty string.\<close>

definition user_has_id :: "User option \<Rightarrow> bool" where
  "user_has_id u = (case u of None \<Rightarrow> False | Some x \<Rightarrow> user_id x \<noteq> [])"

record RideStats =
  totalRides :: nat
  completedRides :: nat
  rejectedRides :: nat
  acceptanceRate :: int
  averageRating :: int

record toast =
  title :: string
  description :: string
  destructive :: bool

datatype console_entry = ConsoleError string | ConsoleLog string

record SystemLog =
  log_type :: string
  log_message :: string
  log_userId :: string
  log_userRole :: string

text \<open>An interval of the browser: its handle, its period and what it runs.\<close>

datatype interval_job = PollRides | PushLocation string

record interval =
  handle :: nat
  period_ms :: nat
  job :: interval_job

text \<open>
  The component and the part of the browser it acts on: the React state (\<open>pendingRides\<close>,
  \<open>stats\<close>, \<open>activeRideId\<close>), the ref \<open>locationUpdateInterval\<close>, the interval that the cleanup
  function returned by \<open>useEffect\<close> has captured, the intervals that are running, and what the
  user and the log have been shown.
\<close>

record comp =
  pendingRides :: "RideRequest list"
  stats :: RideStats
  locationUpdateInterval :: "nat option"
  activeRideId :: "string option"
  effect_cleanup :: "nat option"
  intervals :: "interval list"
  next_handle :: nat
  toasts :: "toast list"
  console :: "console_entry list"
  system_logs :: "SystemLog list"

definition initial_comp :: comp where
  "initial_comp =
     \<lparr> pendingRides = [],
       stats = \<lparr> totalRides = 0, completedRides = 0, rejectedRides = 0,
                 acceptanceRate = 0, averageRating = 0 \<rparr>,
       locationUpdateInterval = None, activeRideId = None, effect_cleanup = None,
       intervals = [], next_handle = 0, toasts = [], console = [], system_logs = [] \<rparr>"

text \<open>
  What the world outside the component answers while one handler runs: the clock, whether the
  store reports an error on a query or on an update, what the statistics service returns
  (\<open>None\<close> when it throws), and the position of the device (\<open>None\<close> when geolocation fails).
\<close>

record env =
  now :: string
  select_error :: bool
  update_error :: bool
  stats_result :: "RideStats option"
  position :: "coords option"

subsection \<open>The browser and the store client\<close>

definition setInterval :: "interval_job \<Rightarrow> nat \<Rightarrow> comp \<Rightarrow> comp \<times> nat" where
  "setInterval j ms c =
     (c\<lparr>intervals := intervals c @ [\<lparr>handle = next_handle c, period_ms = ms, job = j\<rparr>],
        next_handle := Suc (next_handle c)\<rparr>,
      next_handle c)"

definition clearInterval :: "nat \<Rightarrow> comp \<Rightarrow> comp" where
  "clearInterval h c = c\<lparr>intervals := filter (\<lambda>i. handle i \<noteq> h) (intervals c)\<rparr>"

definition show_toast :: "string \<Rightarrow> string \<Rightarrow> bool \<Rightarrow> comp \<Rightarrow> comp" where
  "show_toast t d v c = c\<lparr>toasts := toasts c @ [\<lparr>title = t, description = d, destructive = v\<rparr>]\<rparr>"

definition console_error :: "string \<Rightarrow> comp \<Rightarrow> comp" where
  "console_error m c = c\<lparr>console := console c @ [ConsoleError m]\<rparr>"

definition addLog :: "string \<Rightarrow> string \<Rightarrow> string \<Rightarrow> string \<Rightarrow> comp \<Rightarrow> comp" where
  "addLog t m uid r c =
     c\<lparr>system_logs := system_logs c @
          [\<lparr>log_type = t, log_message = m, log_userId = uid, log_userRole = r\<rparr>]\<rparr>"

text \<open>
  The query of \<open>loadPendingRides\<close>: the two \<open>.or(...)\<close> filters are both applied. The result is the
  error or the rows.
\<close>

definition select_rides :: "env \<Rightarrow> string \<Rightarrow> store \<Rightarrow> RideRequest list option" where
  "select_rides e uid s =
     (if select_error e then None
      else Some (filter (\<lambda>r. (status r = pending \<or> status r = accepted) \<and>
                               (driver_id r = None \<or> driver_id r = Some uid)) s))"

text \<open>
  \<open>.update(values)\<close> followed by \<open>.eq\<close> filters: every row that passes the filters gets the new
  values, the others stay. The result is whether the store reported an error, and the table.
  A statement that matches no row is not an error.
\<close>

definition update_rides ::
  "env \<Rightarrow> (RideRequest \<Rightarrow> bool) \<Rightarrow> (RideRequest \<Rightarrow> RideRequest) \<Rightarrow> store \<Rightarrow> bool \<times> store" where
  "update_rides e matches values s =
     (if update_error e then (True, s)
      else (False, map (\<lambda>r. if matches r then values r else r) s))"

subsection \<open>Polling\<close>

definition loadPendingRides :: "User option \<Rightarrow> env \<Rightarrow> store \<Rightarrow> comp \<Rightarrow> comp" where
  "loadPendingRides u e s c =
     (case u of
        None \<Rightarrow> c
      | Some usr \<Rightarrow>
          if user_id usr = [] then c
          else
            (case select_rides e (user_id usr) s of
               Some rides \<Rightarrow> c\<lparr>pendingRides := rides\<rparr>
             | None \<Rightarrow>
                 show_toast ''Error'' ''Failed to load pending rides. Please try again.'' True
                   (console_error ''Error loading pending rides:'' c)))"

definition calculateStats :: "User option \<Rightarrow> env \<Rightarrow> comp \<Rightarrow> comp" where
  "calculateStats u e c =
     (if \<not> user_has_id u then c
      else
        (case stats_result e of
           Some newStats \<Rightarrow>
             c\<lparr>console := console c @ [ConsoleLog ''Calculated stats:''], stats := newStats\<rparr>
         | None \<Rightarrow> console_error ''Error calculating stats:'' c))"

text \<open>What the five-second interval runs.\<close>

definition poll_tick :: "User option \<Rightarrow> env \<Rightarrow> store \<Rightarrow> comp \<Rightarrow> comp" where
  "poll_tick u e s c = calculateStats u e (loadPendingRides u e s c)"

text \<open>
  What the thirty-second interval runs for the ride it was started for. Neither a geolocation
  failure (there is no error callback) nor the result of the update is looked at.
\<close>

definition push_location_tick :: "string \<Rightarrow> env \<Rightarrow> store \<Rightarrow> store" where
  "push_location_tick rid e s =
     (case position e of
        None \<Rightarrow> s
      | Some newLocation \<Rightarrow>
          snd (update_rides e (\<lambda>r. ride_id r = rid)
                 (\<lambda>r. r\<lparr>driver_location := Some newLocation, updated_at := now e\<rparr>) s))"

text \<open>
  The effect \<open>useEffect(..., [user?.id])\<close>: with a user it loads, starts the five-second
  interval and returns the cleanup that clears this interval; without one it does nothing and
  returns no cleanup. Teardown runs the cleanup if there is one.
\<close>

definition mount :: "User option \<Rightarrow> env \<Rightarrow> store \<Rightarrow> comp \<Rightarrow> comp" where
  "mount u e s c =
     (if user_has_id u then
        (let c1 = calculateStats u e (loadPendingRides u e s c);
             (c2, h) = setInterval PollRides 5000 c1
         in c2\<lparr>effect_cleanup := Some h\<rparr>)
      else c)"

definition unmount :: "comp \<Rightarrow> comp" where
  "unmount c =
     (case effect_cleanup c of
        None \<Rightarrow> c
      | Some h \<Rightarrow> (clearInterval h c)\<lparr>effect_cleanup := None\<rparr>)"

subsection \<open>Accepting a ride\<close>

text \<open>
  Modelled from the spec: the errors of the lifecycle transitions (7 of the spec); the sources
  declare no error type of their own.
\<close>

datatype error = InvalidStateTransition | ConflictError | StoreUnavailable

text \<open>
  Modelled from the spec: the precondition of \<open>accept\<close> (4.2), the request is \<open>pending\<close> and no
  fulfiller is assigned yet; the state in which another fulfiller has claimed the request; and
  the effect of \<open>accept\<close>, which sets the fulfiller, moves the status to \<open>accepted\<close> and updates
  the timestamp.
\<close>

definition claimable :: "string \<Rightarrow> RideRequest \<Rightarrow> bool" where
  "claimable rid r = (ride_id r = rid \<and> status r = pending \<and> driver_id r = None)"

definition claimed_by_other :: "string \<Rightarrow> string \<Rightarrow> RideRequest \<Rightarrow> bool" where
  "claimed_by_other rid driverId r =
     (ride_id r = rid \<and> driver_id r \<noteq> None \<and> driver_id r \<noteq> Some driverId)"

definition claim_row :: "env \<Rightarrow> string \<Rightarrow> RideRequest \<Rightarrow> RideRequest" where
  "claim_row e driverId r =
     r\<lparr>driver_id := Some driverId, status := accepted, updated_at := now e\<rparr>"

text \<open>
  Modelled from the spec: \<open>rideService.acceptRide\<close> (src/services/rideService) is not among the
  sources; only its caller \<open>handleAcceptRide\<close> is. The spec (4.2) gives its contract: the request
  has to be \<open>pending\<close> with no fulfiller assigned; the effect sets the fulfiller, moves the status
  to \<open>accepted\<close> and updates the timestamp; a request already claimed by another fulfiller
  fails with \<open>ConflictError\<close>, any other non-matching source state with
  \<open>InvalidStateTransition\<close>, an unavailable store with \<open>StoreUnavailable\<close>; and "update only if
  still pending" is one atomic request to the store. So it is one conditional update of the
  table, and a failure leaves the table as it is.
\<close>

definition acceptRide ::
  "env \<Rightarrow> string \<Rightarrow> string \<Rightarrow> coords \<Rightarrow> string option \<times> string \<Rightarrow> store \<Rightarrow> error + store" where
  "acceptRide e rid driverId driverLocation driverInfo s =
     (if update_error e then Inl StoreUnavailable
      else if list_ex (claimable rid) s
      then Inr (map (\<lambda>r. if claimable rid r then claim_row e driverId r else r) s)
      else if list_ex (claimed_by_other rid driverId) s then Inl ConflictError
      else Inl InvalidStateTransition)"

text \<open>
  \<open>handleAcceptRide\<close>. The caller tests the result of \<open>acceptRide\<close> for success and treats a
  false result like an exception: both end in the \<open>catch\<close> block. The cached \<open>ride\<close> supplies the
  identifier and the texts of the log entry, nothing else.
\<close>

definition handleAcceptRide ::
  "User option \<Rightarrow> RideRequest \<Rightarrow> env \<Rightarrow> store \<times> comp \<Rightarrow> store \<times> comp" where
  "handleAcceptRide u ride e sc =
     (let (s, c) = sc in
      case u of
        None \<Rightarrow> (s, show_toast ''Error'' ''You must be logged in to accept rides.'' True c)
      | Some usr \<Rightarrow>
          if user_id usr = []
          then (s, show_toast ''Error'' ''You must be logged in to accept rides.'' True c)
          else
            (case position e of
               None \<Rightarrow>
                 (s, show_toast ''Location Error''
                       ''Could not get your location. Please enable location services and try again.''
                       True c)
             | Some driverLocation \<Rightarrow>
                 (case acceptRide e (ride_id ride) (user_id usr) driverLocation
                         (user_phone usr, user_email usr) s of
                    Inr s' \<Rightarrow>
                      (let c1 = c\<lparr>pendingRides :=
                                     filter (\<lambda>r. ride_id r \<noteq> ride_id ride) (pendingRides c)\<rparr>;
                           c2 = calculateStats u e c1;
                           c3 = c2\<lparr>activeRideId := Some (ride_id ride)\<rparr>;
                           c4 = addLog ''Ride accepted''
                                  (''Driver '' @ user_first_name usr @ '' '' @ user_last_name usr @
                                   '' accepted ride from '' @ pickup_location ride @ '' to '' @
                                   destination ride)
                                  (user_id usr) (user_role usr) c3;
                           c5 = show_toast ''Ride accepted!''
                                  ''You have accepted this ride request.'' False c4;
                           c6 = (case locationUpdateInterval c5 of
                                   None \<Rightarrow> c5
                                 | Some old \<Rightarrow> clearInterval old c5);
                           (c7, h) = setInterval (PushLocation (ride_id ride)) 30000 c6
                       in (s', c7\<lparr>locationUpdateInterval := Some h\<rparr>))
                  | Inl err \<Rightarrow>
                      (s, show_toast ''Error'' ''Failed to accept ride. Please try again.'' True
                            (console_error ''Error accepting ride:'' c)))))"

subsection \<open>Completing a ride\<close>



text \<open>The row of the table with a given identifier, if there is one.\<close>

definition stored :: "store \<Rightarrow> string \<Rightarrow> RideRequest option" where
  "stored s rid = find (\<lambda>r. ride_id r = rid) s"

subsection \<open>Example data\<close>

text \<open>
  Two drivers, the ride request of the scenario of the spec (pickup "Campus Gate", destination
  "Library", pending, no driver), and a world in which every service answers.
\<close>

definition driver_A :: User where
  "driver_A =
     \<lparr> user_id = ''driver-a'', user_email = ''amina@example.org'', user_first_name = ''Amina'',
       user_last_name = ''Said'', user_role = ''driver'', user_phone = Some ''0711'' \<rparr>"

definition driver_B :: User where
  "driver_B =
     \<lparr> user_id = ''driver-b'', user_email = ''baraka@example.org'', user_first_name = ''Baraka'',
       user_last_name = ''Mushi'', user_role = ''driver'', user_phone = None \<rparr>"

definition campus_ride :: RideRequest where
  "campus_ride =
     \<lparr> ride_id = ''ride-1'', student_id = ''student-1'', driver_id = None,
       pickup_location = ''Campus Gate'', destination = ''Library'', status = pending,
       updated_at = ''t0'', driver_location = None \<rparr>"

definition env_ok :: "string \<Rightarrow> env" where
  "env_ok t =
     \<lparr> now = t, select_error = False, update_error = False,
       stats_result = Some \<lparr> totalRides = 1, completedRides = 0, rejectedRides = 0,
                             acceptanceRate = 100, averageRating = 0 \<rparr>,
       position = Some (-6, 39) \<rparr>"

section \<open>The routing table (src/unnamed/part_001)\<close>

text \<open>
  Each route wraps its page in \<open>PublicRoute\<close>, in \<open>ProtectedRoute\<close> with or without
  \<open>requiredRoles\<close>, or in nothing.
\<close>

datatype route_guard = PublicRoute | ProtectedRoute "string list option" | Unguarded

definition routes :: "(string \<times> route_guard \<times> string) list" where
  "routes =
     [(''/'', PublicRoute, ''Login''),
      (''/login'', PublicRoute, ''Login''),
      (''/register'', ProtectedRoute (Some [''admin'']), ''Register''),
      (''/admin'', ProtectedRoute (Some [''admin'']), ''Admin''),
      (''/confirmation-logs'', ProtectedRoute (Some [''admin'']), ''ConfirmationLogs''),
      (''/complaint/list'', ProtectedRoute (Some [''admin'']), ''ComplaintList''),
      (''/helper'', ProtectedRoute (Some [''helper'']), ''Helper''),
      (''/student'', ProtectedRoute (Some [''student'']), ''Student''),
      (''/driver'', ProtectedRoute (Some [''driver'']), ''Driver''),
      (''/complaint'', ProtectedRoute None, ''Complaint''),
      (''/book-ride'', ProtectedRoute None, ''RideBooking''),
      (''/messages'', ProtectedRoute None, ''Messages''),
      (''*'', Unguarded, ''NotFound'')]"



section \<open>Properties of the post-registration hook\<close>

lemma jsonb_get_text_missing_key: "obj k = None \<Longrightarrow> jsonb_get_text (Some obj) k = None"
  by (simp add: jsonb_get_text_def)

lemma jsonb_get_text_null_column: "jsonb_get_text None k = None"
  by (simp add: jsonb_get_text_def)

lemma handle_new_auth_user_existing:
  "users (new_id NEW) = Some r \<Longrightarrow> handle_new_auth_user NEW users = (users, NEW)"
  by (simp add: handle_new_auth_user_def)

lemma handle_new_auth_user_fresh:
  "users (new_id NEW) = None \<Longrightarrow>
   handle_new_auth_user NEW users = (users(new_id NEW \<mapsto> new_users_row NEW), NEW)"
  by (simp add: handle_new_auth_user_def)

lemma handle_new_auth_user_defined:
  "\<exists>r. fst (handle_new_auth_user NEW users) (new_id NEW) = Some r"
  by (cases "users (new_id NEW)") (simp_all add: handle_new_auth_user_def)

lemma handle_new_auth_user_keeps_rows:
  "users k = Some r \<Longrightarrow> fst (handle_new_auth_user NEW users) k = Some r"
  by (cases "users (new_id NEW)") (auto simp add: handle_new_auth_user_def)

text \<open>
  Claim C4. The hook is idempotent, keyed by the identifier: run a second time for an event
  with the same user id (whatever its e-mail address and metadata are by then), it leaves the
  table \<open>users\<close> exactly as the first run left it, and it returns its row normally; the model has
  no error outcome, as \<open>ON CONFLICT (id) DO NOTHING\<close> has none for a duplicate identifier.
\<close>

theorem handle_new_auth_user_idempotent:
  assumes "new_id NEW2 = new_id NEW1"
  shows "handle_new_auth_user NEW2 (fst (handle_new_auth_user NEW1 users)) =
           (fst (handle_new_auth_user NEW1 users), NEW2)"
proof -
  obtain r where "fst (handle_new_auth_user NEW1 users) (new_id NEW1) = Some r"
    using handle_new_auth_user_defined by blast
  with assms have "fst (handle_new_auth_user NEW1 users) (new_id NEW2) = Some r"
    by simp
  then show ?thesis
    by (rule handle_new_auth_user_existing)
qed

theorem handle_new_auth_user_idempotent_witness:
  "new_id \<lparr> new_id = ''u1'', new_email = Some ''x@y.z'', raw_user_meta_data = None,
            new_created_at = ''t1'' \<rparr> =
   new_id \<lparr> new_id = ''u1'', new_email = Some ''a@b.c'',
            raw_user_meta_data = Some [''role'' \<mapsto> JText ''driver''],
            new_created_at = ''t0'' \<rparr> \<and>
   fst (handle_new_auth_user
         \<lparr> new_id = ''u1'', new_email = Some ''x@y.z'', raw_user_meta_data = None,
           new_created_at = ''t1'' \<rparr>
         (fst (handle_new_auth_user
                \<lparr> new_id = ''u1'', new_email = Some ''a@b.c'',
                  raw_user_meta_data = Some [''role'' \<mapsto> JText ''driver''],
                  new_created_at = ''t0'' \<rparr> Map.empty))) ''u1'' =
   Some \<lparr> users_id = ''u1'', users_email = Some ''a@b.c'', first_name = [],
          last_name = [], role = ''driver'', created_at = ''t0'' \<rparr>"
  using handle_new_auth_user_idempotent [of
      "\<lparr> new_id = ''u1'', new_email = Some ''x@y.z'', raw_user_meta_data = None,
         new_created_at = ''t1'' \<rparr>"
      "\<lparr> new_id = ''u1'', new_email = Some ''a@b.c'',
         raw_user_meta_data = Some [''role'' \<mapsto> JText ''driver''],
         new_created_at = ''t0'' \<rparr>" Map.empty]
  by (simp add: handle_new_auth_user_def new_users_row_def Let_def jsonb_get_text_def
      COALESCE_def)

text \<open>
  Claim C10. For a new authentication user (no row of \<open>users\<close> has its identifier yet) the hook
  inserts a row under that identifier, whatever the metadata holds. A name that the metadata
  lacks (the key is missing, its value is JSON \<open>null\<close>, or the column is NULL, so that \<open>->>\<close> is
  NULL) is stored as the empty string, and a role that the metadata lacks is stored as
  \<open>student\<close>.
\<close>

theorem handle_new_auth_user_defaults:
  assumes "users (new_id NEW) = None"
  shows "\<exists>row. fst (handle_new_auth_user NEW users) (new_id NEW) = Some row \<and>
           users_id row = new_id NEW \<and>
           (jsonb_get_text (raw_user_meta_data NEW) ''first_name'' = None \<longrightarrow>
              first_name row = []) \<and>
           (jsonb_get_text (raw_user_meta_data NEW) ''last_name'' = None \<longrightarrow>
              last_name row = []) \<and>
           (jsonb_get_text (raw_user_meta_data NEW) ''role'' = None \<longrightarrow>
              role row = ''student'')"
  using assms
  by (simp add: handle_new_auth_user_def new_users_row_def Let_def COALESCE_def)

theorem handle_new_auth_user_defaults_witness:
  "(Map.empty :: users_table)
     (new_id \<lparr> new_id = ''u7'', new_email = None, raw_user_meta_data = Some Map.empty,
               new_created_at = ''t0'' \<rparr>) = None \<and>
   jsonb_get_text (Some Map.empty) ''first_name'' = None \<and>
   jsonb_get_text (Some Map.empty) ''last_name'' = None \<and>
   jsonb_get_text (Some Map.empty) ''role'' = None \<and>
   fst (handle_new_auth_user
         \<lparr> new_id = ''u7'', new_email = None, raw_user_meta_data = Some Map.empty,
           new_created_at = ''t0'' \<rparr> Map.empty) ''u7'' =
   Some \<lparr> users_id = ''u7'', users_email = None, first_name = [],
          last_name = [], role = ''student'', created_at = ''t0'' \<rparr>"
  using handle_new_auth_user_defaults [of Map.empty
      "\<lparr> new_id = ''u7'', new_email = None, raw_user_meta_data = Some Map.empty,
         new_created_at = ''t0'' \<rparr>"]
  by (simp add: handle_new_auth_user_def new_users_row_def Let_def jsonb_get_text_def
      COALESCE_def)

text \<open>
  Claim C7, as stated, fails on the hook: it copies the role of the metadata as it is. A
  registration event whose metadata gives the role \<open>superuser\<close> materializes a row of \<open>users\<close>
  with the role \<open>superuser\<close>, which is outside the closed set.
\<close>

theorem handle_new_auth_user_role_counterexample:
  "fst (handle_new_auth_user
         \<lparr> new_id = ''u9'', new_email = Some ''m@n.o'',
           raw_user_meta_data = Some [''role'' \<mapsto> JText ''superuser''],
           new_created_at = ''t0'' \<rparr> Map.empty) ''u9'' =
     Some \<lparr> users_id = ''u9'', users_email = Some ''m@n.o'', first_name = [],
            last_name = [], role = ''superuser'', created_at = ''t0'' \<rparr> \<and>
   ''superuser'' \<notin> User_roles"
  by (simp add: handle_new_auth_user_def new_users_row_def Let_def jsonb_get_text_def
      COALESCE_def User_roles_def)

text \<open>
  Claim C7, amended. The row that the hook materializes for a new user has exactly one role:
  the role text of the metadata when there is one, \<open>student\<close> otherwise. So this role is in the
  closed set exactly when the metadata gives no role or gives one of the four.
\<close>

theorem handle_new_auth_user_role_verbatim:
  assumes "users (new_id NEW) = None"
  shows "\<exists>row. fst (handle_new_auth_user NEW users) (new_id NEW) = Some row \<and>
           role row = (case jsonb_get_text (raw_user_meta_data NEW) ''role'' of
                         None \<Rightarrow> ''student'' | Some r \<Rightarrow> r) \<and>
           (role row \<in> User_roles \<longleftrightarrow>
              (case jsonb_get_text (raw_user_meta_data NEW) ''role'' of
                 None \<Rightarrow> True | Some r \<Rightarrow> r \<in> User_roles))"
  using assms
  by (auto simp add: handle_new_auth_user_def new_users_row_def Let_def COALESCE_def
      User_roles_def split: option.splits)

theorem handle_new_auth_user_role_verbatim_witness:
  "(Map.empty :: users_table)
     (new_id \<lparr> new_id = ''u3'', new_email = Some ''d@e.f'',
               raw_user_meta_data = Some [''role'' \<mapsto> JText ''helper''],
               new_created_at = ''t0'' \<rparr>) = None \<and>
   (\<exists>row. fst (handle_new_auth_user
                \<lparr> new_id = ''u3'', new_email = Some ''d@e.f'',
                  raw_user_meta_data = Some [''role'' \<mapsto> JText ''helper''],
                  new_created_at = ''t0'' \<rparr> Map.empty) ''u3'' = Some row \<and>
          role row = ''helper'' \<and> role row \<in> User_roles)"
  using handle_new_auth_user_role_verbatim [of Map.empty
      "\<lparr> new_id = ''u3'', new_email = Some ''d@e.f'',
         raw_user_meta_data = Some [''role'' \<mapsto> JText ''helper''],
         new_created_at = ''t0'' \<rparr>"]
  by (simp add: jsonb_get_text_def User_roles_def)

section \<open>Properties of the registration form\<close>

subsection \<open>The bank account number\<close>

lemma strip_non_digits_digits: "list_all is_digit (strip_non_digits v)"
  by (simp add: strip_non_digits_def list_all_iff)

lemma strip_non_digits_fixpoint: "list_all is_digit v \<Longrightarrow> strip_non_digits v = v"
  by (simp add: strip_non_digits_def list_all_iff)

lemma initial_bankAccountNumber: "form initial_page ''bankAccountNumber'' = Str []"
  by (simp add: initial_page_def initial_formData_def)

lemma handleFileChange_bankAccountNumber:
  "form (handleFileChange fo p) ''bankAccountNumber'' = form p ''bankAccountNumber''"
  by (simp add: handleFileChange_def Let_def split: option.splits prod.splits)

lemma handleRegister_form: "form (handleRegister res p) = form p"
  by (simp add: handleRegister_def Let_def split: register_result.splits)

lemma form_step_bankAccountNumber:
  assumes "all_digits (form p ''bankAccountNumber'')"
  shows "all_digits (form (form_step p ev) ''bankAccountNumber'')"
proof (cases ev)
  case (Change name v)
  then show ?thesis
    using assms
    by (simp add: handleChange_def all_digits_def strip_non_digits_digits)
next
  case (SelectChange name v)
  then show ?thesis
    using assms by (auto simp add: handleSelectChange_def select_names_def)
next
  case (FileChange fo)
  then show ?thesis
    using assms by (simp add: handleFileChange_bankAccountNumber)
next
  case (Submit res)
  then show ?thesis
    using assms by (simp add: handleRegister_form)
qed

lemma foldl_bankAccountNumber:
  "all_digits (form p ''bankAccountNumber'') \<Longrightarrow>
   all_digits (form (foldl form_step p evs) ''bankAccountNumber'')"
  by (induction evs arbitrary: p) (simp_all add: form_step_bankAccountNumber)

text \<open>
  Claim C9. After every sequence of events on the registration form the stored bank account
  number is a string of digit characters only. The change handler stores, for the field
  \<open>bankAccountNumber\<close>, the typed value with every character that is not a digit removed (and
  the digits kept in order); for every other field it stores the typed value as it is; and it
  touches no field but the one that was typed into.
\<close>

theorem bankAccountNumber_digits_only:
  "all_digits (form (run_form evs) ''bankAccountNumber'') \<and>
   form (handleChange ''bankAccountNumber'' v p) ''bankAccountNumber'' =
     Str (filter is_digit v) \<and>
   (name \<noteq> ''bankAccountNumber'' \<longrightarrow> form (handleChange name v p) name = Str v) \<and>
   (other \<noteq> name \<longrightarrow> form (handleChange name v p) other = form p other)"
proof -
  have "all_digits (form initial_page ''bankAccountNumber'')"
    by (simp add: initial_bankAccountNumber all_digits_def)
  then have "all_digits (form (run_form evs) ''bankAccountNumber'')"
    unfolding run_form_def by (rule foldl_bankAccountNumber)
  moreover have "form (handleChange ''bankAccountNumber'' v p) ''bankAccountNumber'' =
      Str (filter is_digit v)"
    by (simp add: handleChange_def strip_non_digits_def)
  moreover have "name \<noteq> ''bankAccountNumber'' \<longrightarrow> form (handleChange name v p) name = Str v"
    by (simp add: handleChange_def)
  moreover have "other \<noteq> name \<longrightarrow> form (handleChange name v p) other = form p other"
    by (simp add: handleChange_def)
  ultimately show ?thesis by blast
qed

theorem bankAccountNumber_digits_only_witness:
  "''phone'' \<noteq> ''bankAccountNumber'' \<and> ''email'' \<noteq> ''phone'' \<and>
   form (run_form [Change ''bankAccountNumber'' ''01-52 a7'', SelectChange ''bankName'' ''NBC''])
     ''bankAccountNumber'' = Str ''01527'' \<and>
   all_digits (form (run_form [Change ''bankAccountNumber'' ''01-52 a7'',
                               SelectChange ''bankName'' ''NBC'']) ''bankAccountNumber'') \<and>
   form (handleChange ''bankAccountNumber'' ''01-52 a7'' initial_page) ''bankAccountNumber'' =
     Str ''01527'' \<and>
   form (handleChange ''phone'' ''01-52 a7'' initial_page) ''phone'' = Str ''01-52 a7'' \<and>
   form (handleChange ''phone'' ''01-52 a7'' initial_page) ''email'' = form initial_page ''email''"
  using bankAccountNumber_digits_only
    [of "[Change ''bankAccountNumber'' ''01-52 a7'', SelectChange ''bankName'' ''NBC'']"
        "''01-52 a7''" initial_page "''phone''" "''email''"]
  by (simp add: run_form_def handleChange_def handleSelectChange_def text_input_names_def
      select_names_def strip_non_digits_def is_digit_def)

subsection \<open>The constraints on selected files\<close>

lemma handleFileChange_no_call:
  "registerUser_calls (handleFileChange fo p) = registerUser_calls p"
  by (simp add: handleFileChange_def Let_def split: option.splits prod.splits)

lemma handleFileChange_rejects:
  assumes "\<not> meets_constraint f"
  shows "form (handleFileChange (Some f) p) = form p"
  using assms
  by (auto simp add: handleFileChange_def meets_constraint_def maxSize_def maxVideoSize_def
      Let_def split: option.splits prod.splits if_splits)

lemma handleFileChange_alerts:
  assumes "\<not> meets_constraint f"
    and "prefix ''video/'' (file_type f) \<or> file_type f = ''application/pdf'' \<or>
         (prefix ''image/'' (file_type f) \<and> image_dims f \<noteq> None)"
  shows "length (alerts (handleFileChange (Some f) p)) = Suc (length (alerts p)) \<and>
         input_reset (handleFileChange (Some f) p)"
  using assms
  by (auto simp add: handleFileChange_def meets_constraint_def maxSize_def maxVideoSize_def
      Let_def split: option.splits prod.splits if_splits)

lemma handleFileChange_accepts:
  assumes "meets_constraint f"
  shows "\<exists>k \<in> {''disabilityVideo'', ''profilePicture'', ''applicationLetter''}.
           form (handleFileChange (Some f) p) k = FileV f"
  using assms
  by (auto simp add: handleFileChange_def meets_constraint_def maxSize_def maxVideoSize_def
      Let_def split: option.splits prod.splits if_splits)

lemma handleFileChange_field_ok:
  assumes "\<forall>k. field_ok (form p k)"
  shows "field_ok (form (handleFileChange fo p) k)"
proof (cases fo)
  case None
  then show ?thesis using assms by (simp add: handleFileChange_def)
next
  case (Some f)
  show ?thesis
  proof (cases "meets_constraint f")
    case True
    then show ?thesis
      using assms Some
      by (auto simp add: handleFileChange_def Let_def split: option.splits prod.splits)
  next
    case False
    then show ?thesis
      using assms Some by (simp add: handleFileChange_rejects)
  qed
qed

lemma registrationData_of_files_ok:
  "\<forall>k. field_ok (fd k) \<Longrightarrow> \<forall>x \<in> set (files_of (registrationData_of fd)). field_ok x"
  by (simp add: files_of_def registrationData_of_def Let_def)

lemma handleRegister_calls:
  "registerUser_calls (handleRegister res p) = registerUser_calls p \<or>
   registerUser_calls (handleRegister res p) = registerUser_calls p @ [registrationData_of (form p)]"
  by (simp add: handleRegister_def Let_def split: register_result.splits)

lemma form_step_files_ok:
  assumes "files_ok p"
  shows "files_ok (form_step p ev)"
proof (cases ev)
  case (Change name v)
  then show ?thesis
    using assms by (simp add: files_ok_def handleChange_def)
next
  case (SelectChange name v)
  then show ?thesis
    using assms by (simp add: files_ok_def handleSelectChange_def)
next
  case (FileChange fo)
  then show ?thesis
    using assms by (simp add: files_ok_def handleFileChange_field_ok handleFileChange_no_call)
next
  case (Submit res)
  have "\<forall>k. field_ok (form p k)"
    using assms by (simp add: files_ok_def)
  then have "\<forall>x \<in> set (files_of (registrationData_of (form p))). field_ok x"
    by (rule registrationData_of_files_ok)
  then show ?thesis
    using assms Submit handleRegister_calls [of res p]
    by (auto simp add: files_ok_def handleRegister_form)
qed

lemma foldl_files_ok: "files_ok p \<Longrightarrow> files_ok (foldl form_step p evs)"
  by (induction evs arbitrary: p) (simp_all add: form_step_files_ok)

lemma initial_files_ok: "files_ok initial_page"
  by (simp add: files_ok_def initial_page_def initial_formData_def)

lemma run_form_files_ok: "files_ok (run_form evs)"
  unfolding run_form_def by (rule foldl_files_ok [OF initial_files_ok])

text \<open>
  Claim C3. A selected file that violates the constraint of its kind (an image over 2MB or
  wider or higher than 1024 pixels, a PDF over 2MB, a video over 100MB; a file of any other
  kind is never taken) is rejected by the file handler: the form is left as it was, and the
  handler calls no service. Consequently, after every sequence of events on the page, every
  file held by the form and every file in a payload handed to the registration service (the
  only store or storage call of the page) meets its constraint.
\<close>

theorem file_constraints_enforced:
  "(\<not> meets_constraint f \<longrightarrow>
      form (handleFileChange (Some f) p) = form p \<and>
      registerUser_calls (handleFileChange (Some f) p) = registerUser_calls p) \<and>
   (\<forall>k. field_ok (form (run_form evs) k)) \<and>
   (\<forall>rd \<in> set (registerUser_calls (run_form evs)). \<forall>x \<in> set (files_of rd). field_ok x)"
  using run_form_files_ok [of evs]
  by (simp add: handleFileChange_rejects handleFileChange_no_call files_ok_def)

theorem file_constraints_enforced_witness:
  "\<not> meets_constraint \<lparr>file_type = ''image/png'', file_size = 3 * 1024 * 1024,
                        image_dims = Some (800, 600)\<rparr> \<and>
   form (handleFileChange
           (Some \<lparr>file_type = ''image/png'', file_size = 3 * 1024 * 1024,
                  image_dims = Some (800, 600)\<rparr>) initial_page) ''profilePicture'' = Null \<and>
   registerUser_calls
     (handleFileChange
        (Some \<lparr>file_type = ''image/png'', file_size = 3 * 1024 * 1024,
               image_dims = Some (800, 600)\<rparr>) initial_page) = [] \<and>
   (\<exists>rd. rd \<in> set (registerUser_calls
                      (run_form
                         [FileChange (Some \<lparr>file_type = ''image/png'',
                                           file_size = 3 * 1024 * 1024,
                                           image_dims = Some (800, 600)\<rparr>),
                          FileChange (Some \<lparr>file_type = ''image/png'', file_size = 4096,
                                           image_dims = Some (640, 480)\<rparr>),
                          Change ''firstname'' ''Asha'', Change ''lastname'' ''Juma'',
                          Change ''email'' ''a@b.c'', Change ''password'' ''secret'',
                          Change ''confirmPassword'' ''secret'',
                          SelectChange ''role'' ''driver'', Change ''phone'' ''0712'',
                          Submit RegSuccess])) \<and>
         rd_profile_picture rd =
           FileV \<lparr>file_type = ''image/png'', file_size = 4096, image_dims = Some (640, 480)\<rparr> \<and>
         (\<forall>x \<in> set (files_of rd). field_ok x))"
proof -
  let ?bad = "\<lparr>file_type = ''image/png'', file_size = 3 * 1024 * 1024,
               image_dims = Some (800, 600)\<rparr>"
  let ?good = "\<lparr>file_type = ''image/png'', file_size = 4096, image_dims = Some (640, 480)\<rparr>"
  let ?evs = "[FileChange (Some ?bad), FileChange (Some ?good),
               Change ''firstname'' ''Asha'', Change ''lastname'' ''Juma'',
               Change ''email'' ''a@b.c'', Change ''password'' ''secret'',
               Change ''confirmPassword'' ''secret'',
               SelectChange ''role'' ''driver'', Change ''phone'' ''0712'',
               Submit RegSuccess]"
  note inst = file_constraints_enforced [of ?bad initial_page ?evs]
  have bad: "\<not> meets_constraint ?bad"
    by (simp add: meets_constraint_def)
  have form0: "form (handleFileChange (Some ?bad) initial_page) = form initial_page"
    and calls0: "registerUser_calls (handleFileChange (Some ?bad) initial_page) =
                 registerUser_calls initial_page"
    using inst bad by blast+
  have pic0: "form initial_page ''profilePicture'' = Null"
    by (simp add: initial_page_def initial_formData_def)
  have calls_init: "registerUser_calls initial_page = []"
    by (simp add: initial_page_def)
  have run: "registerUser_calls (run_form ?evs) =
      [registrationData_of (form (foldl form_step initial_page (butlast ?evs)))]"
    by (simp add: run_form_def handleFileChange_def handleChange_def handleSelectChange_def
        handleRegister_def text_input_names_def select_names_def Let_def initial_page_def
        initial_formData_def maxSize_def)
  have pic: "rd_profile_picture
       (registrationData_of (form (foldl form_step initial_page (butlast ?evs)))) = FileV ?good"
    by (simp add: handleFileChange_def handleChange_def handleSelectChange_def
        registrationData_of_def text_input_names_def select_names_def Let_def initial_page_def
        initial_formData_def maxSize_def)
  have ok: "\<forall>rd \<in> set (registerUser_calls (run_form ?evs)). \<forall>x \<in> set (files_of rd). field_ok x"
    using inst by blast
  show ?thesis
    using bad form0 calls0 pic0 calls_init run pic ok
    by (metis list.set_intros(1))
qed

section \<open>Properties of the routing table\<close>


lemma protected_paths:
  "map_of routes path = Some (ProtectedRoute requiredRoles, page_name) \<Longrightarrow>
   path \<in> {''/register'', ''/admin'', ''/confirmation-logs'', ''/complaint/list'', ''/helper'',
            ''/student'', ''/driver'', ''/complaint'', ''/book-ride'', ''/messages''}"
  by (simp add: routes_def split: if_splits)



section \<open>Properties of the driver's ride list\<close>

subsection \<open>Polling failures\<close>

text \<open>
  Claim C5, as stated, fails on the ride-list poll: a failed fetch is logged and also shown to
  the user. With the store reporting an error, one poll of a signed-in driver on the freshly
  created component leaves a destructive toast on the screen.
\<close>

theorem loadPendingRides_failure_counterexample:
  "toasts (loadPendingRides (Some driver_A) ((env_ok ''t1'')\<lparr>select_error := True\<rparr>)
             [campus_ride] initial_comp) =
     [\<lparr>title = ''Error'', description = ''Failed to load pending rides. Please try again.'',
       destructive = True\<rparr>]"
  by (simp add: loadPendingRides_def select_rides_def show_toast_def console_error_def
      driver_A_def env_ok_def initial_comp_def)

text \<open>
  Claim C5, amended. A failed ride-list poll of a signed-in driver is logged to the console and
  shown to the user as a destructive toast; the cached ride list, the statistics and the
  running intervals stay as they were, so the poll runs again on the next cycle, with no
  backoff. A failed statistics poll is logged to the console and shows nothing to the user. A
  location push that fails (no position, or an error of the store) changes nothing in the
  store.
\<close>

theorem poll_failure_logged_and_shown:
  "(user_has_id u \<and> select_error e \<longrightarrow>
      console (loadPendingRides u e s c) =
        console c @ [ConsoleError ''Error loading pending rides:''] \<and>
      toasts (loadPendingRides u e s c) =
        toasts c @ [\<lparr>title = ''Error'',
                     description = ''Failed to load pending rides. Please try again.'',
                     destructive = True\<rparr>] \<and>
      pendingRides (loadPendingRides u e s c) = pendingRides c \<and>
      stats (loadPendingRides u e s c) = stats c \<and>
      intervals (loadPendingRides u e s c) = intervals c) \<and>
   (user_has_id u \<and> stats_result e = None \<longrightarrow>
      console (calculateStats u e c) = console c @ [ConsoleError ''Error calculating stats:''] \<and>
      toasts (calculateStats u e c) = toasts c \<and>
      stats (calculateStats u e c) = stats c \<and>
      intervals (calculateStats u e c) = intervals c) \<and>
   (position e = None \<or> update_error e \<longrightarrow> push_location_tick rid e s = s)"
  by (auto simp add: loadPendingRides_def calculateStats_def push_location_tick_def
      select_rides_def update_rides_def show_toast_def console_error_def user_has_id_def
      split: option.splits)

theorem poll_failure_logged_and_shown_witness:
  "user_has_id (Some driver_A) \<and>
   select_error ((env_ok ''t1'')\<lparr>select_error := True, stats_result := None,
                                  position := None\<rparr>) \<and>
   stats_result ((env_ok ''t1'')\<lparr>select_error := True, stats_result := None,
                                   position := None\<rparr>) = None \<and>
   position ((env_ok ''t1'')\<lparr>select_error := True, stats_result := None,
                               position := None\<rparr>) = None \<and>
   console (loadPendingRides (Some driver_A)
              ((env_ok ''t1'')\<lparr>select_error := True, stats_result := None, position := None\<rparr>)
              [campus_ride] initial_comp) = [ConsoleError ''Error loading pending rides:''] \<and>
   length (toasts (loadPendingRides (Some driver_A)
              ((env_ok ''t1'')\<lparr>select_error := True, stats_result := None, position := None\<rparr>)
              [campus_ride] initial_comp)) = 1 \<and>
   toasts (calculateStats (Some driver_A)
              ((env_ok ''t1'')\<lparr>select_error := True, stats_result := None, position := None\<rparr>)
              initial_comp) = [] \<and>
   push_location_tick ''ride-1''
     ((env_ok ''t1'')\<lparr>select_error := True, stats_result := None, position := None\<rparr>)
     [campus_ride] = [campus_ride]"
  using poll_failure_logged_and_shown
    [of "Some driver_A"
        "(env_ok ''t1'')\<lparr>select_error := True, stats_result := None, position := None\<rparr>"
        "[campus_ride]" initial_comp "''ride-1''"]
  by (simp add: user_has_id_def driver_A_def env_ok_def initial_comp_def)

subsection \<open>Intervals at teardown\<close>

lemma unmount_clears_poll_interval:
  assumes "user_has_id u"
  shows "intervals (unmount (mount u e s initial_comp)) = []"
  using assms
  by (simp add: mount_def unmount_def setInterval_def clearInterval_def calculateStats_def
      loadPendingRides_def select_rides_def show_toast_def console_error_def initial_comp_def
      user_has_id_def Let_def split: option.splits)

text \<open>
  Claim C6 on the code. A signed-in driver opens the component, accepts the ride of the
  scenario, and the component is torn down. The five-second interval (handle 0) is cleared by
  the cleanup of the effect; the thirty-second location push (handle 1), which \<open>handleAcceptRide\<close>
  started, is still running after the teardown.
\<close>

theorem location_interval_survives_unmount:
  "intervals (mount (Some driver_A) (env_ok ''t1'') [campus_ride] initial_comp) =
     [\<lparr>handle = 0, period_ms = 5000, job = PollRides\<rparr>] \<and>
   intervals
     (snd (handleAcceptRide (Some driver_A) campus_ride (env_ok ''t2'')
             ([campus_ride], mount (Some driver_A) (env_ok ''t1'') [campus_ride] initial_comp))) =
     [\<lparr>handle = 0, period_ms = 5000, job = PollRides\<rparr>,
      \<lparr>handle = 1, period_ms = 30000, job = PushLocation ''ride-1''\<rparr>] \<and>
   intervals
     (unmount
        (snd (handleAcceptRide (Some driver_A) campus_ride (env_ok ''t2'')
                ([campus_ride],
                 mount (Some driver_A) (env_ok ''t1'') [campus_ride] initial_comp)))) =
     [\<lparr>handle = 1, period_ms = 30000, job = PushLocation ''ride-1''\<rparr>]"
  by (simp add: mount_def unmount_def handleAcceptRide_def acceptRide_def claimable_def
      setInterval_def clearInterval_def calculateStats_def loadPendingRides_def addLog_def
      select_rides_def show_toast_def console_error_def initial_comp_def user_has_id_def
      driver_A_def campus_ride_def env_ok_def Let_def)

subsection \<open>Completing a ride\<close>

lemma stored_map:
  assumes "\<And>r. ride_id (g r) = ride_id r"
  shows "stored (map g s) rid = map_option g (stored s rid)"
  using assms by (induction s) (simp_all add: stored_def)

lemma stored_in_set: "stored s rid = Some r \<Longrightarrow> r \<in> set s \<and> ride_id r = rid"
  by (induction s) (auto simp add: stored_def split: if_splits)








subsection \<open>Accepting a ride\<close>

lemma acceptRide_claims:
  assumes "\<not> update_error e" and "stored s rid = Some r0" and "claimable rid r0"
  shows "acceptRide e rid driverId loc info s =
           Inr (map (\<lambda>r. if claimable rid r then claim_row e driverId r else r) s)"
proof -
  have "r0 \<in> set s" using assms(2) stored_in_set by blast
  with assms(3) have "list_ex (claimable rid) s"
    by (auto simp add: list_ex_iff)
  with assms(1) show ?thesis
    by (simp add: acceptRide_def)
qed

lemma claim_row_not_claimable: "\<not> claimable rid (claim_row e d r)"
  by (simp add: claimable_def claim_row_def)

lemma claimed_not_claimable:
  "\<not> list_ex (claimable rid) (map (\<lambda>r. if claimable rid r then claim_row e d r else r) s)"
proof (induction s)
  case Nil
  show ?case by simp
next
  case (Cons x xs)
  show ?case
  proof (cases "claimable rid x")
    case True
    with Cons show ?thesis by (simp add: claim_row_not_claimable)
  next
    case False
    with Cons show ?thesis by simp
  qed
qed

lemma stored_after_claim:
  assumes "stored s rid = Some r0" and "claimable rid r0"
  shows "stored (map (\<lambda>r. if claimable rid r then claim_row e d r else r) s) rid =
           Some (claim_row e d r0)"
proof -
  have "ride_id (if claimable rid r then claim_row e d r else r) = ride_id r" for r
    by (simp add: claim_row_def)
  then have "stored (map (\<lambda>r. if claimable rid r then claim_row e d r else r) s) rid =
      map_option (\<lambda>r. if claimable rid r then claim_row e d r else r) (stored s rid)"
    by (rule stored_map)
  with assms show ?thesis by simp
qed

lemma acceptRide_conflict:
  assumes "\<not> update_error e" and "\<not> list_ex (claimable rid) s"
    and "stored s rid = Some r1" and "driver_id r1 = Some other" and "other \<noteq> driverId"
  shows "acceptRide e rid driverId loc info s = Inl ConflictError"
proof -
  have "r1 \<in> set s \<and> ride_id r1 = rid" using assms(3) stored_in_set by blast
  with assms(4,5) have "list_ex (claimed_by_other rid driverId) s"
    by (auto simp add: list_ex_iff claimed_by_other_def)
  with assms(1,2) show ?thesis
    by (simp add: acceptRide_def)
qed

lemma handleAcceptRide_success:
  assumes "user_id usr \<noteq> []" and "position e = Some loc"
    and "acceptRide e (ride_id ride) (user_id usr) loc (user_phone usr, user_email usr) s = Inr s'"
  shows "fst (handleAcceptRide (Some usr) ride e (s, c)) = s' \<and>
         last (toasts (snd (handleAcceptRide (Some usr) ride e (s, c)))) =
           \<lparr>title = ''Ride accepted!'', description = ''You have accepted this ride request.'',
             destructive = False\<rparr>"
  using assms
  by (simp add: handleAcceptRide_def show_toast_def addLog_def calculateStats_def
      setInterval_def clearInterval_def console_error_def Let_def split: option.splits)

lemma handleAcceptRide_failure:
  assumes "user_id usr \<noteq> []" and "position e = Some loc"
    and "acceptRide e (ride_id ride) (user_id usr) loc (user_phone usr, user_email usr) s = Inl err"
  shows "fst (handleAcceptRide (Some usr) ride e (s, c)) = s \<and>
         last (toasts (snd (handleAcceptRide (Some usr) ride e (s, c)))) =
           \<lparr>title = ''Error'', description = ''Failed to accept ride. Please try again.'',
             destructive = True\<rparr>"
  using assms
  by (simp add: handleAcceptRide_def show_toast_def console_error_def)

text \<open>
  Claim C2. A request is stored as \<open>pending\<close> with no driver, and two different signed-in drivers
  accept it, each from a page of their own. Every accept is one conditional update of the
  store, so the two of them take effect in some order; the drivers are arbitrary, so the
  theorem covers both orders. The accept that comes first succeeds, the second fails with
  \<open>ConflictError\<close> and leaves the store as the first one left it, the loser is shown the failure,
  and the stored driver is the winner. Each handler passes only the identifier of its cached
  ride to the store, so what it decides does not depend on the status or driver of the cached
  copy (\<open>rideA\<close> and \<open>rideB\<close> are arbitrary copies with this identifier).
\<close>

theorem concurrent_accept_one_winner:
  assumes "stored s rid = Some r0" and "status r0 = pending" and "driver_id r0 = None"
    and "user_id a \<noteq> []" and "user_id b \<noteq> []" and "user_id a \<noteq> user_id b"
    and "ride_id rideA = rid" and "ride_id rideB = rid"
    and "position ea = Some la" and "position eb = Some lb"
    and "\<not> update_error ea" and "\<not> update_error eb"
  shows
    "\<exists>s1. acceptRide ea rid (user_id a) la (user_phone a, user_email a) s = Inr s1 \<and>
          acceptRide eb rid (user_id b) lb (user_phone b, user_email b) s1 = Inl ConflictError \<and>
          fst (handleAcceptRide (Some a) rideA ea (s, ca)) = s1 \<and>
          last (toasts (snd (handleAcceptRide (Some a) rideA ea (s, ca)))) =
            \<lparr>title = ''Ride accepted!'', description = ''You have accepted this ride request.'',
              destructive = False\<rparr> \<and>
          fst (handleAcceptRide (Some b) rideB eb (s1, cb)) = s1 \<and>
          last (toasts (snd (handleAcceptRide (Some b) rideB eb (s1, cb)))) =
            \<lparr>title = ''Error'', description = ''Failed to accept ride. Please try again.'',
              destructive = True\<rparr> \<and>
          stored s1 rid =
            Some (r0\<lparr>driver_id := Some (user_id a), status := accepted, updated_at := now ea\<rparr>)"
proof -
  let ?s1 = "map (\<lambda>r. if claimable rid r then claim_row ea (user_id a) r else r) s"
  have r0: "claimable rid r0"
    using assms(1-3) stored_in_set by (auto simp add: claimable_def)
  have first: "acceptRide ea rid (user_id a) la (user_phone a, user_email a) s = Inr ?s1"
    using assms(11) assms(1) r0 by (rule acceptRide_claims)
  have sto: "stored ?s1 rid = Some (claim_row ea (user_id a) r0)"
    using assms(1) r0 by (rule stored_after_claim)
  have drv: "driver_id (claim_row ea (user_id a) r0) = Some (user_id a)"
    by (simp add: claim_row_def)
  have second: "acceptRide eb rid (user_id b) lb (user_phone b, user_email b) ?s1 =
      Inl ConflictError"
    using assms(12) claimed_not_claimable sto drv assms(6) by (rule acceptRide_conflict)
  have ha: "fst (handleAcceptRide (Some a) rideA ea (s, ca)) = ?s1 \<and>
      last (toasts (snd (handleAcceptRide (Some a) rideA ea (s, ca)))) =
        \<lparr>title = ''Ride accepted!'', description = ''You have accepted this ride request.'',
          destructive = False\<rparr>"
    using assms(4) assms(9) first assms(7) by (intro handleAcceptRide_success) simp_all
  have hb: "fst (handleAcceptRide (Some b) rideB eb (?s1, cb)) = ?s1 \<and>
      last (toasts (snd (handleAcceptRide (Some b) rideB eb (?s1, cb)))) =
        \<lparr>title = ''Error'', description = ''Failed to accept ride. Please try again.'',
          destructive = True\<rparr>"
    using assms(5) assms(10) second assms(8) by (intro handleAcceptRide_failure) simp_all
  have "stored ?s1 rid =
      Some (r0\<lparr>driver_id := Some (user_id a), status := accepted, updated_at := now ea\<rparr>)"
    using sto by (simp add: claim_row_def)
  with first second ha hb show ?thesis by blast
qed

theorem concurrent_accept_one_winner_witness:
  "stored [campus_ride] ''ride-1'' = Some campus_ride \<and>
   status campus_ride = pending \<and> driver_id campus_ride = None \<and>
   user_id driver_A \<noteq> [] \<and> user_id driver_B \<noteq> [] \<and> user_id driver_A \<noteq> user_id driver_B \<and>
   ride_id campus_ride = ''ride-1'' \<and>
   position (env_ok ''t1'') = Some (-6, 39) \<and> position (env_ok ''t2'') = Some (-6, 39) \<and>
   \<not> update_error (env_ok ''t1'') \<and> \<not> update_error (env_ok ''t2'') \<and>
   stored
     (fst (handleAcceptRide (Some driver_B) campus_ride (env_ok ''t2'')
             (fst (handleAcceptRide (Some driver_A) campus_ride (env_ok ''t1'')
                     ([campus_ride], initial_comp)),
              initial_comp))) ''ride-1'' =
     Some (campus_ride\<lparr>driver_id := Some ''driver-a'', status := accepted,
                        updated_at := ''t1''\<rparr>) \<and>
   last (toasts
     (snd (handleAcceptRide (Some driver_B) campus_ride (env_ok ''t2'')
             (fst (handleAcceptRide (Some driver_A) campus_ride (env_ok ''t1'')
                     ([campus_ride], initial_comp)),
              initial_comp)))) =
     \<lparr>title = ''Error'', description = ''Failed to accept ride. Please try again.'',
       destructive = True\<rparr>"
proof -
  have h1: "stored [campus_ride] ''ride-1'' = Some campus_ride"
    by (simp add: stored_def campus_ride_def)
  have h2: "status campus_ride = pending" and h3: "driver_id campus_ride = None"
    and h7: "ride_id campus_ride = ''ride-1''"
    by (simp_all add: campus_ride_def)
  have h4: "user_id driver_A \<noteq> []" and h5: "user_id driver_B \<noteq> []"
    and h6: "user_id driver_A \<noteq> user_id driver_B" and ida: "user_id driver_A = ''driver-a''"
    by (simp_all add: driver_A_def driver_B_def)
  have h9: "position (env_ok ''t1'') = Some (-6, 39)"
    and h10: "position (env_ok ''t2'') = Some (-6, 39)"
    and h11: "\<not> update_error (env_ok ''t1'')" and h12: "\<not> update_error (env_ok ''t2'')"
    and t1: "now (env_ok ''t1'') = ''t1''"
    by (simp_all add: env_ok_def)
  from concurrent_accept_one_winner
         [where ca = initial_comp and cb = initial_comp, OF h1 h2 h3 h4 h5 h6 h7 h7 h9 h10 h11 h12]
  obtain s1 where
    a: "fst (handleAcceptRide (Some driver_A) campus_ride (env_ok ''t1'')
               ([campus_ride], initial_comp)) = s1"
    and b: "fst (handleAcceptRide (Some driver_B) campus_ride (env_ok ''t2'')
                   (s1, initial_comp)) = s1"
    and t: "last (toasts (snd (handleAcceptRide (Some driver_B) campus_ride (env_ok ''t2'')
                                 (s1, initial_comp)))) =
              \<lparr>title = ''Error'', description = ''Failed to accept ride. Please try again.'',
                destructive = True\<rparr>"
    and w: "stored s1 ''ride-1'' =
              Some (campus_ride\<lparr>driver_id := Some (user_id driver_A), status := accepted,
                                 updated_at := now (env_ok ''t1'')\<rparr>)"
    by blast
  from a b t w ida t1 h1 h2 h3 h4 h5 h6 h7 h9 h10 h11 h12 show ?thesis
    by simp
qed

end
